theory Spec2Isabelle
  imports Complex_Main "HOL-Library.Log_Nat"
begin

section \<open>Numbers\<close>

text \<open>
  The ledger computes with Python floats, IEEE binary64 doubles. A double is modelled
  by the rational number it denotes. In \<open>update\<close>, \<open>update_exit_prices\<close> and
  \<open>adjust_commission_cost_basis\<close> the arithmetic is read exactly, and \<open>1e-3\<close> is
  the rational \<open>1/1000\<close>. In \<open>handle_split\<close> and \<open>round_order\<close> a computed
  value is handed to \<open>floor\<close>, \<open>round(x, 2)\<close> or \<open>int\<close>, which jump; there
  every operation is rounded to the nearest double by \<open>fl\<close>. Infinities, NaN,
  overflow and negative zero are outside the model.
\<close>

definition copysign :: "rat \<Rightarrow> rat \<Rightarrow> rat" where
  \<comment> \<open>\<open>math.copysign(x, y)\<close>: the magnitude of \<open>x\<close> with the sign of \<open>y\<close>;
      a zero \<open>y\<close> counts as positive.\<close>
  "copysign x y = (if y < 0 then - \<bar>x\<bar> else \<bar>x\<bar>)"

definition py_round :: "rat \<Rightarrow> int" where
  \<comment> \<open>Python 3 \<open>round(x)\<close>: to the nearest integer, a tie to the even one.\<close>
  "py_round x =
     (let f = \<lfloor>x\<rfloor>; d = x - of_int f
      in if d < 1 / 2 then f
         else if 1 / 2 < d then f + 1
         else if even f then f else f + 1)"

definition pow2 :: "int \<Rightarrow> rat" where
  "pow2 e = (if 0 \<le> e then 2 ^ nat e else 1 / 2 ^ nat (- e))"

definition binary_exponent :: "rat \<Rightarrow> int" where
  \<comment> \<open>the \<open>e\<close> with \<open>2^e \<le> |x| < 2^(e+1)\<close>, for \<open>x \<noteq> 0\<close>\<close>
  "binary_exponent x =
     (let a = \<bar>x\<bar>
      in if 1 \<le> a then bitlen \<lfloor>a\<rfloor> - 1 else - bitlen (\<lceil>1 / a\<rceil> - 1))"

definition fl :: "rat \<Rightarrow> rat" where
  \<comment> \<open>the double nearest to \<open>x\<close>: 53 significant bits, a tie to the even
      significand, the fixed spacing \<open>2^-1074\<close> below \<open>2^-1022\<close>\<close>
  "fl x =
     (if x = 0 then 0
      else let u = pow2 (max (binary_exponent x - 52) (- 1074))
           in of_int (py_round (x / u)) * u)"

definition round2 :: "rat \<Rightarrow> rat" where
  \<comment> \<open>\<open>round(x, 2)\<close> of a double: the exact value of \<open>x\<close> is rounded to two
      decimals, a tie to the even digit, and the double nearest to that decimal is
      returned.\<close>
  "round2 x = fl (of_int (py_round (x * 100)) / 100)"


section \<open>Data model\<close>

text \<open>
  Modelled from the spec: the asset classes of \<open>zipline.assets\<close> are not among the
  sources. The ledger reads an asset's identity, its \<open>tick_size\<close>, whether it is a
  \<open>Future\<close>, and a future's \<open>price_multiplier\<close>.
\<close>

datatype asset =
    is_Equity: Equity (sid: int) (tick_size: rat)
  | is_Future: Future (sid: int) (tick_size: rat) (price_multiplier: rat)

datatype error =
    Exception_wrong_asset
  | ValueError_take_profit
  | ValueError_stop_loss
  | ZeroDivisionError

record position =
  asset :: asset
  amount :: rat
  cost_basis :: rat
  last_sale_price :: rat
  last_sale_date :: "int option"
  take_profit_price :: rat
  stop_loss_price :: rat

record transaction =
  txn_asset :: asset
  txn_amount :: rat
  txn_dt :: int
  txn_price :: rat
  txn_order_id :: nat
  txn_take_profit_price :: "rat option"
  txn_stop_loss_price :: "rat option"



text \<open>
  A method of \<open>Position\<close> mutates the object in place and either returns or raises.
  Its model returns the outcome together with the position as the call leaves it, so
  that what a raising call has already written stays visible.
\<close>

type_synonym 'a outcome = "(error + 'a) \<times> position"

type_synonym tick_quantizer = "rat \<Rightarrow> bool \<Rightarrow> rat \<Rightarrow> rat"

definition Position :: "asset \<Rightarrow> position" where
  \<comment> \<open>\<open>Position(asset)\<close> with the constructor's defaults.\<close>
  "Position a =
     \<lparr>asset = a, amount = 0, cost_basis = 0, last_sale_price = 0,
      last_sale_date = None, take_profit_price = 0, stop_loss_price = 0\<rparr>"

text \<open>
  Modelled from the spec: \<open>asymmetric_round_price\<close> (the TickQuantizer of
  \<open>zipline.finance.execution\<close>) is not among the sources and the spec leaves it
  opaque. Every operation takes it as the parameter \<open>arp\<close>:
  price, direction flag and tick size in, price out. \<open>on_tick\<close> is the quantizer on
  prices that already sit on a tick; it is used only to run the ledger on concrete
  inputs.
\<close>

definition on_tick :: tick_quantizer where
  "on_tick price prefer_round_down tick = price"

section \<open>Position ledger\<close>



definition handle_split :: "position \<Rightarrow> asset \<Rightarrow> rat \<Rightarrow> rat outcome" where
  "handle_split self a ratio =
     (if asset self \<noteq> a then (Inl Exception_wrong_asset, self)
      else if ratio = 0 then (Inl ZeroDivisionError, self)
      else
        let raw_share_count = fl (amount self / ratio);
            full_share_count = of_int \<lfloor>raw_share_count\<rfloor>;
            fractional_share_count = fl (raw_share_count - full_share_count);
            new_cost_basis = round2 (fl (cost_basis self * ratio));
            s1 = self\<lparr>cost_basis := new_cost_basis, amount := full_share_count\<rparr>;
            return_cash = round2 (fl (fractional_share_count * new_cost_basis));
            s2 = (if take_profit_price s1 \<noteq> 0
                  then s1\<lparr>take_profit_price := round2 (fl (take_profit_price s1 * ratio))\<rparr>
                  else s1);
            s3 = (if stop_loss_price s2 \<noteq> 0
                  then s2\<lparr>stop_loss_price := round2 (fl (stop_loss_price s2 * ratio))\<rparr>
                  else s2)
        in (Inr return_cash, s3))"

definition update_exit_prices ::
  "tick_quantizer \<Rightarrow> position \<Rightarrow> rat option \<Rightarrow> rat option \<Rightarrow> rat option \<Rightarrow> rat option
     \<Rightarrow> unit outcome" where
  "update_exit_prices arp self tp sl amount_arg lsp =
     (let amt = (case amount_arg of None \<Rightarrow> amount self | Some a \<Rightarrow> a);
          resulting_direction = copysign 1 amt;
          r1 = (case tp of
                  None \<Rightarrow> (Inr (), self)
                | Some t \<Rightarrow>
                    if take_profit_price self \<noteq> 0 \<and>
                       (case lsp of None \<Rightarrow> False
                        | Some l \<Rightarrow> resulting_direction * t < resulting_direction * l)
                    then (Inl ValueError_take_profit, self)
                    else (Inr (),
                          self\<lparr>take_profit_price :=
                                  arp t (\<not> amt > 0) (tick_size (asset self))\<rparr>))
      in case r1 of
           (Inl e, s) \<Rightarrow> (Inl e, s)
         | (Inr u, s) \<Rightarrow>
             (case sl of
                None \<Rightarrow> (Inr (), s)
              | Some l' \<Rightarrow>
                  if stop_loss_price s \<noteq> 0 \<and>
                     (case lsp of None \<Rightarrow> False
                      | Some l \<Rightarrow> resulting_direction * l' > resulting_direction * l)
                  then (Inl ValueError_stop_loss, s)
                  else (Inr (),
                        s\<lparr>stop_loss_price :=
                             arp l' (amt > 0) (tick_size (asset s))\<rparr>)))"

definition update :: "tick_quantizer \<Rightarrow> position \<Rightarrow> transaction \<Rightarrow> unit outcome" where
  "update arp self txn =
     (if asset self \<noteq> txn_asset txn then (Inl Exception_wrong_asset, self)
      else
        let total_shares = amount self + txn_amount txn
        in if \<bar>total_shares\<bar> < 1 / 1000
           then (Inr (),
                 self\<lparr>cost_basis := 0, take_profit_price := 0, stop_loss_price := 0,
                      amount := total_shares\<rparr>)
           else
             let prev_direction = copysign 1 (amount self);
                 txn_direction = copysign 1 (txn_amount txn);
                 s1 = (if prev_direction \<noteq> txn_direction
                       then (if \<bar>txn_amount txn\<bar> > \<bar>amount self\<bar>
                             then self\<lparr>cost_basis := txn_price txn\<rparr>
                             else self)
                       else
                         let prev_cost = cost_basis self * amount self;
                             txn_cost = txn_amount txn * txn_price txn;
                             total_cost = prev_cost + txn_cost
                         in self\<lparr>cost_basis := total_cost / total_shares\<rparr>);
                 s2 = (if (case last_sale_date s1 of None \<Rightarrow> True
                           | Some d \<Rightarrow> txn_dt txn > d)
                       then s1\<lparr>last_sale_price := txn_price txn,
                                last_sale_date := Some (txn_dt txn)\<rparr>
                       else s1)
             in case update_exit_prices arp s2 (txn_take_profit_price txn)
                       (txn_stop_loss_price txn) (Some total_shares)
                       (Some (last_sale_price s2)) of
                  (Inl e, s3) \<Rightarrow> (Inl e, s3)
                | (Inr u, s3) \<Rightarrow> (Inr (), s3\<lparr>amount := total_shares\<rparr>))"

definition adjust_commission_cost_basis :: "position \<Rightarrow> asset \<Rightarrow> rat \<Rightarrow> unit outcome" where
  "adjust_commission_cost_basis self a cost =
     (if a \<noteq> asset self then (Inl Exception_wrong_asset, self)
      else if cost = 0 then (Inr (), self)
      else if amount self = 0 then (Inr (), self)
      else
        let prev_cost = cost_basis self * amount self
        in if is_Future a \<and> price_multiplier a = 0 then (Inl ZeroDivisionError, self)
           else
             let cost_to_use = (if is_Future a then cost / price_multiplier a else cost);
                 new_cost = prev_cost + cost_to_use
             in (Inr (), self\<lparr>cost_basis := new_cost / amount self\<rparr>))"

text \<open>
  A stream of fills applied in order; the first call that raises ends the run, as the
  exception would.
\<close>

fun update_all :: "tick_quantizer \<Rightarrow> position \<Rightarrow> transaction list \<Rightarrow> unit outcome" where
  "update_all arp self [] = (Inr (), self)"
| "update_all arp self (txn # txns) =
     (case update arp self txn of
        (Inl e, s) \<Rightarrow> (Inl e, s)
      | (Inr u, s) \<Rightarrow> update_all arp s txns)"

section \<open>Order rounding\<close>




section \<open>The steps of \<open>update\<close>\<close>

text \<open>
  The three stages of the non-flat branch of \<open>update\<close>, named so that the proofs can
  follow one stage at a time: the cost-basis branch, the last-sale refresh, and the
  final assignment of \<open>amount\<close>, which a raising exit-price update skips.
\<close>

definition basis_step :: "position \<Rightarrow> transaction \<Rightarrow> position" where
  "basis_step self txn =
     (if copysign 1 (amount self) \<noteq> copysign 1 (txn_amount txn)
      then (if \<bar>txn_amount txn\<bar> > \<bar>amount self\<bar>
            then self\<lparr>cost_basis := txn_price txn\<rparr> else self)
      else self\<lparr>cost_basis :=
                   (cost_basis self * amount self + txn_amount txn * txn_price txn)
                     / (amount self + txn_amount txn)\<rparr>)"

definition sale_step :: "position \<Rightarrow> transaction \<Rightarrow> position" where
  "sale_step s txn =
     (if (case last_sale_date s of None \<Rightarrow> True | Some d \<Rightarrow> txn_dt txn > d)
      then s\<lparr>last_sale_price := txn_price txn, last_sale_date := Some (txn_dt txn)\<rparr>
      else s)"

definition commit :: "rat \<Rightarrow> unit outcome \<Rightarrow> unit outcome" where
  "commit a r =
     (case r of (Inl e, s) \<Rightarrow> (Inl e, s) | (Inr u, s) \<Rightarrow> (Inr (), s\<lparr>amount := a\<rparr>))"

section \<open>Concrete ledgers\<close>

definition ACME :: asset where
  "ACME = Equity 1 (1 / 100)"

definition OTHER :: asset where
  "OTHER = Equity 2 (1 / 100)"

definition FUT :: asset where
  "FUT = Future 3 (1 / 100) 5"

definition holding :: "asset \<Rightarrow> rat \<Rightarrow> rat \<Rightarrow> position" where
  \<comment> \<open>a position of \<open>q\<close> units bought at \<open>price\<close> at time 1, no exit prices\<close>
  "holding a q price =
     \<lparr>asset = a, amount = q, cost_basis = price, last_sale_price = price,
      last_sale_date = Some 1, take_profit_price = 0, stop_loss_price = 0\<rparr>"

definition fill :: "asset \<Rightarrow> rat \<Rightarrow> rat \<Rightarrow> int \<Rightarrow> transaction" where
  \<comment> \<open>a transaction of \<open>q\<close> units at \<open>price\<close> at time \<open>dt\<close>, without exit prices\<close>
  "fill a q price dt =
     \<lparr>txn_asset = a, txn_amount = q, txn_dt = dt, txn_price = price, txn_order_id = 0,
      txn_take_profit_price = None, txn_stop_loss_price = None\<rparr>"

definition protected :: "position \<Rightarrow> rat \<Rightarrow> rat \<Rightarrow> position" where
  \<comment> \<open>the position with both exit prices set\<close>
  "protected p tp sl = p\<lparr>take_profit_price := tp, stop_loss_price := sl\<rparr>"

definition carrying :: "transaction \<Rightarrow> rat option \<Rightarrow> rat option \<Rightarrow> transaction" where
  \<comment> \<open>the transaction with the exit prices of its order\<close>
  "carrying t tp sl = t\<lparr>txn_take_profit_price := tp, txn_stop_loss_price := sl\<rparr>"



definition flag_probe :: tick_quantizer where
  \<comment> \<open>a quantizer stub whose result tells which direction flag it was given\<close>
  "flag_probe price prefer_round_down tick = (if prefer_round_down then price - tick else price + tick)"

section \<open>How \<open>update\<close> unfolds\<close>

lemma update_open:
  assumes "asset p = txn_asset t" and "\<not> \<bar>amount p + txn_amount t\<bar> < 1 / 1000"
  shows "update arp p t =
           commit (amount p + txn_amount t)
             (update_exit_prices arp (sale_step (basis_step p t) t)
                (txn_take_profit_price t) (txn_stop_loss_price t)
                (Some (amount p + txn_amount t))
                (Some (last_sale_price (sale_step (basis_step p t) t))))"
  using assms unfolding update_def basis_step_def sale_step_def commit_def Let_def
  by simp

lemma update_flat:
  assumes "asset p = txn_asset t" and "\<bar>amount p + txn_amount t\<bar> < 1 / 1000"
  shows "update arp p t =
           (Inr (), p\<lparr>cost_basis := 0, take_profit_price := 0, stop_loss_price := 0,
                      amount := amount p + txn_amount t\<rparr>)"
  using assms unfolding update_def Let_def by simp

lemma update_wrong_asset:
  "asset p \<noteq> txn_asset t \<Longrightarrow> update arp p t = (Inl Exception_wrong_asset, p)"
  unfolding update_def by simp

lemma commit_fields:
  "cost_basis (snd (commit a r)) = cost_basis (snd r)"
  "last_sale_price (snd (commit a r)) = last_sale_price (snd r)"
  "last_sale_date (snd (commit a r)) = last_sale_date (snd r)"
  "take_profit_price (snd (commit a r)) = take_profit_price (snd r)"
  "stop_loss_price (snd (commit a r)) = stop_loss_price (snd r)"
  "asset (snd (commit a r)) = asset (snd r)"
  "fst (commit a r) = fst r"
  by (cases r; cases "fst r"; simp add: commit_def)+

lemma commit_amount:
  "amount (snd (commit a r)) = (case fst r of Inl e \<Rightarrow> amount (snd r) | Inr u \<Rightarrow> a)"
  by (cases r; cases "fst r"; simp add: commit_def)

lemma uep_fields:
  "cost_basis (snd (update_exit_prices arp s tp sl a lsp)) = cost_basis s"
  "last_sale_price (snd (update_exit_prices arp s tp sl a lsp)) = last_sale_price s"
  "last_sale_date (snd (update_exit_prices arp s tp sl a lsp)) = last_sale_date s"
  "amount (snd (update_exit_prices arp s tp sl a lsp)) = amount s"
  "asset (snd (update_exit_prices arp s tp sl a lsp)) = asset s"
  by (simp_all add: update_exit_prices_def Let_def split: option.splits)

lemma sale_step_fields:
  "cost_basis (sale_step s t) = cost_basis s"
  "amount (sale_step s t) = amount s"
  "asset (sale_step s t) = asset s"
  "take_profit_price (sale_step s t) = take_profit_price s"
  "stop_loss_price (sale_step s t) = stop_loss_price s"
  by (simp_all add: sale_step_def)

lemma basis_step_fields:
  "last_sale_price (basis_step s t) = last_sale_price s"
  "last_sale_date (basis_step s t) = last_sale_date s"
  "amount (basis_step s t) = amount s"
  "asset (basis_step s t) = asset s"
  "take_profit_price (basis_step s t) = take_profit_price s"
  "stop_loss_price (basis_step s t) = stop_loss_price s"
  by (simp_all add: basis_step_def)

section \<open>Cost basis of a merged fill\<close>

text \<open>
  C1. For a transaction on the position's asset whose total
  \<open>amount + txn.amount\<close> is at least \<open>1e-3\<close> in magnitude, \<open>update\<close> leaves
  \<open>cost_basis\<close> at the size-weighted average when position and fill have the same
  sign, at the fill price when the signs differ and the fill is larger than the
  position, and unchanged when the signs differ and the fill is not larger. The sign is
  the code's \<open>copysign(1, x)\<close>. The value is written before the exit prices are
  looked at, so it holds whether or not the call then raises.
\<close>

theorem update_cost_basis:
  assumes "asset p = txn_asset t"
    and "total_shares = amount p + txn_amount t"
    and "\<bar>total_shares\<bar> \<ge> 1 / 1000"
  shows "cost_basis (snd (update arp p t)) =
           (if copysign 1 (amount p) = copysign 1 (txn_amount t)
            then (cost_basis p * amount p + txn_amount t * txn_price t) / total_shares
            else if \<bar>txn_amount t\<bar> > \<bar>amount p\<bar> then txn_price t
            else cost_basis p)"
proof -
  from assms have "\<not> \<bar>amount p + txn_amount t\<bar> < 1 / 1000" by simp
  from update_open [OF assms(1) this]
  have "cost_basis (snd (update arp p t)) = cost_basis (basis_step p t)"
    by (simp add: commit_fields uep_fields sale_step_fields)
  then show ?thesis
    by (simp add: basis_step_def assms(2))
qed

text \<open>
  The spec's weighted-average example: long 100 at 10.00, then a buy of 50 at 13.00,
  gives a cost basis of 11.00.
\<close>

theorem update_cost_basis_witness:
  "asset (holding ACME 100 10) = txn_asset (fill ACME 50 13 2) \<and>
   (150 :: rat) = amount (holding ACME 100 10) + txn_amount (fill ACME 50 13 2) \<and>
   \<bar>150 :: rat\<bar> \<ge> 1 / 1000 \<and>
   cost_basis (snd (update on_tick (holding ACME 100 10) (fill ACME 50 13 2))) = 11"
  using update_cost_basis [of "holding ACME 100 10" "fill ACME 50 13 2" 150 on_tick]
  by (simp add: holding_def fill_def copysign_def)

text \<open>
  The same table read with the mathematical sign (\<open>sgn 0 = 0\<close>): the two readings
  differ only when the position or the fill is zero, and there both give the same
  cost basis.
\<close>

lemma update_cost_basis_sgn:
  assumes "asset p = txn_asset t"
    and "total_shares = amount p + txn_amount t"
    and "\<bar>total_shares\<bar> \<ge> 1 / 1000"
  shows "cost_basis (snd (update arp p t)) =
           (if sgn (amount p) = sgn (txn_amount t)
            then (cost_basis p * amount p + txn_amount t * txn_price t) / total_shares
            else if \<bar>txn_amount t\<bar> > \<bar>amount p\<bar> then txn_price t
            else cost_basis p)"
proof -
  from assms have nz: "amount p + txn_amount t \<noteq> 0" by auto
  from assms have "\<not> \<bar>amount p + txn_amount t\<bar> < 1 / 1000" by simp
  from update_open [OF assms(1) this]
  have "cost_basis (snd (update arp p t)) = cost_basis (basis_step p t)"
    by (simp add: commit_fields uep_fields sale_step_fields)
  also have "\<dots> = (if sgn (amount p) = sgn (txn_amount t)
            then (cost_basis p * amount p + txn_amount t * txn_price t) / total_shares
            else if \<bar>txn_amount t\<bar> > \<bar>amount p\<bar> then txn_price t
            else cost_basis p)"
    using nz by (auto simp add: basis_step_def assms(2) copysign_def sgn_if)
  finally show ?thesis .
qed

section \<open>Flattening\<close>







text \<open>
  A stream on the position's asset that carries no exit prices never raises, so the
  runs the flatten theorem speaks about exist for every such stream.
\<close>

lemma update_plain_returns:
  assumes "asset p = txn_asset t"
    and "txn_take_profit_price t = None" and "txn_stop_loss_price t = None"
  shows "fst (update arp p t) = Inr () \<and> asset (snd (update arp p t)) = asset p"
proof (cases "\<bar>amount p + txn_amount t\<bar> < 1 / 1000")
  case True
  with assms(1) show ?thesis by (simp add: update_flat)
next
  case False
  have "fst (update_exit_prices arp s None None a l) = Inr ()" for s a l
    by (simp add: update_exit_prices_def Let_def)
  with assms show ?thesis
    by (simp add: update_open [OF assms(1) False] commit_fields uep_fields
          sale_step_fields basis_step_fields)
qed

lemma update_all_plain_returns:
  "\<forall>t \<in> set txns. txn_asset t = asset p \<and> txn_take_profit_price t = None \<and>
       txn_stop_loss_price t = None \<Longrightarrow>
     fst (update_all arp p txns) = Inr ()"
proof (induction txns arbitrary: p)
  case Nil
  then show ?case by simp
next
  case (Cons t txns)
  then have "fst (update arp p t) = Inr () \<and> asset (snd (update arp p t)) = asset p"
    by (intro update_plain_returns) simp_all
  moreover obtain r s where u: "update arp p t = (r, s)" by (cases "update arp p t")
  ultimately have r: "r = Inr ()" and s: "asset s = asset p" by simp_all
  from Cons.prems s
  have "\<forall>t \<in> set txns. txn_asset t = asset s \<and> txn_take_profit_price t = None \<and>
       txn_stop_loss_price t = None"
    by simp
  from Cons.IH [OF this] u r show ?case by simp
qed

section \<open>Last sale price and date\<close>





section \<open>What a raising call leaves behind\<close>

lemma uep_raise_take_profit:
  "fst (update_exit_prices arp p tp sl a lsp) = Inl ValueError_take_profit \<Longrightarrow>
     snd (update_exit_prices arp p tp sl a lsp) = p"
  by (simp add: update_exit_prices_def Let_def split: option.splits if_splits)

lemma uep_stop_loss_on_raise:
  "fst (update_exit_prices arp p tp sl a lsp) = Inl e \<Longrightarrow>
     stop_loss_price (snd (update_exit_prices arp p tp sl a lsp)) = stop_loss_price p"
  by (simp add: update_exit_prices_def Let_def split: option.splits if_splits)

lemma uep_raise_rest:
  "fst (update_exit_prices arp p tp sl a lsp) = Inl e \<Longrightarrow>
     snd (update_exit_prices arp p tp sl a lsp) =
       p\<lparr>take_profit_price := take_profit_price (snd (update_exit_prices arp p tp sl a lsp))\<rparr>"
  by (simp add: update_exit_prices_def Let_def split: option.splits if_splits)

lemma update_raise_fields:
  assumes "fst (update arp p t) = Inl e"
  shows "asset (snd (update arp p t)) = asset p \<and>
         amount (snd (update arp p t)) = amount p \<and>
         stop_loss_price (snd (update arp p t)) = stop_loss_price p"
proof (cases "asset p = txn_asset t")
  case False
  then show ?thesis by (simp add: update_wrong_asset)
next
  case m: True
  show ?thesis
  proof (cases "\<bar>amount p + txn_amount t\<bar> < 1 / 1000")
    case True
    with assms m show ?thesis by (simp add: update_flat)
  next
    case False
    define r where "r = update_exit_prices arp (sale_step (basis_step p t) t)
                (txn_take_profit_price t) (txn_stop_loss_price t)
                (Some (amount p + txn_amount t))
                (Some (last_sale_price (sale_step (basis_step p t) t)))"
    have u: "update arp p t = commit (amount p + txn_amount t) r"
      by (simp add: update_open [OF m False] r_def)
    with assms have f: "fst r = Inl e" by (simp add: commit_fields)
    then have "stop_loss_price (snd r) = stop_loss_price (sale_step (basis_step p t) t)"
      unfolding r_def by (rule uep_stop_loss_on_raise)
    moreover have "amount (snd r) = amount p" "asset (snd r) = asset p"
      by (simp_all add: r_def uep_fields sale_step_fields basis_step_fields)
    ultimately show ?thesis using f
      by (simp add: u commit_fields commit_amount sale_step_fields basis_step_fields)
  qed
qed

text \<open>
  C3, as the code has it. A call that raises because of the asset check (\<open>update\<close>,
  \<open>handle_split\<close>, \<open>adjust_commission_cost_basis\<close>) or a zero divisor
  (\<open>handle_split\<close>, \<open>adjust_commission_cost_basis\<close>) leaves the position as it
  was. \<open>update_exit_prices\<close> raising on the take-profit check leaves it as it was;
  raising on the stop-loss check it leaves every field but \<open>take_profit_price\<close> as
  it was. \<open>update\<close> raising on an exit-price check leaves \<open>asset\<close>,
  \<open>amount\<close> and \<open>stop_loss_price\<close> as they were.
\<close>

theorem raise_footprint:
  "(asset p1 \<noteq> txn_asset t1 \<longrightarrow> update arp p1 t1 = (Inl Exception_wrong_asset, p1)) \<and>
   (fst (handle_split p2 a2 ratio) = Inl e2 \<longrightarrow> snd (handle_split p2 a2 ratio) = p2) \<and>
   (fst (adjust_commission_cost_basis p3 a3 cost) = Inl e3 \<longrightarrow>
      snd (adjust_commission_cost_basis p3 a3 cost) = p3) \<and>
   (fst (update_exit_prices arp p4 tp4 sl4 a4 lsp4) = Inl ValueError_take_profit \<longrightarrow>
      snd (update_exit_prices arp p4 tp4 sl4 a4 lsp4) = p4) \<and>
   (fst (update_exit_prices arp p5 tp5 sl5 a5 lsp5) = Inl e5 \<longrightarrow>
      snd (update_exit_prices arp p5 tp5 sl5 a5 lsp5) =
        p5\<lparr>take_profit_price :=
              take_profit_price (snd (update_exit_prices arp p5 tp5 sl5 a5 lsp5))\<rparr>) \<and>
   (fst (update arp p6 t6) = Inl e6 \<longrightarrow>
      asset (snd (update arp p6 t6)) = asset p6 \<and>
      amount (snd (update arp p6 t6)) = amount p6 \<and>
      stop_loss_price (snd (update arp p6 t6)) = stop_loss_price p6)"
proof (intro conjI impI)
  show "asset p1 \<noteq> txn_asset t1 \<Longrightarrow> update arp p1 t1 = (Inl Exception_wrong_asset, p1)"
    by (rule update_wrong_asset)
  show "fst (handle_split p2 a2 ratio) = Inl e2 \<Longrightarrow> snd (handle_split p2 a2 ratio) = p2"
    by (simp add: handle_split_def Let_def split: if_splits)
  show "fst (adjust_commission_cost_basis p3 a3 cost) = Inl e3 \<Longrightarrow>
      snd (adjust_commission_cost_basis p3 a3 cost) = p3"
    by (simp add: adjust_commission_cost_basis_def Let_def split: if_splits)
  show "fst (update_exit_prices arp p4 tp4 sl4 a4 lsp4) = Inl ValueError_take_profit \<Longrightarrow>
      snd (update_exit_prices arp p4 tp4 sl4 a4 lsp4) = p4"
    by (rule uep_raise_take_profit)
  show "fst (update_exit_prices arp p5 tp5 sl5 a5 lsp5) = Inl e5 \<Longrightarrow>
      snd (update_exit_prices arp p5 tp5 sl5 a5 lsp5) =
        p5\<lparr>take_profit_price :=
              take_profit_price (snd (update_exit_prices arp p5 tp5 sl5 a5 lsp5))\<rparr>"
    by (rule uep_raise_rest)
  assume h: "fst (update arp p6 t6) = Inl e6"
  from update_raise_fields [OF h] show "asset (snd (update arp p6 t6)) = asset p6" by simp
  from update_raise_fields [OF h] show "amount (snd (update arp p6 t6)) = amount p6" by simp
  from update_raise_fields [OF h]
  show "stop_loss_price (snd (update arp p6 t6)) = stop_loss_price p6" by simp
qed

theorem raise_footprint_witness:
  "asset (holding ACME 100 10) \<noteq> txn_asset (fill OTHER 50 13 2) \<and>
   update on_tick (holding ACME 100 10) (fill OTHER 50 13 2) =
     (Inl Exception_wrong_asset, holding ACME 100 10) \<and>
   handle_split (holding ACME 100 10) OTHER 3 =
     (Inl Exception_wrong_asset, holding ACME 100 10) \<and>
   handle_split (holding ACME 100 10) ACME 0 =
     (Inl ZeroDivisionError, holding ACME 100 10) \<and>
   adjust_commission_cost_basis (holding ACME 100 10) OTHER 10 =
     (Inl Exception_wrong_asset, holding ACME 100 10) \<and>
   update_exit_prices on_tick (protected (holding ACME 100 10) 12 9)
       (Some 9) (Some 11) None (Some 10) =
     (Inl ValueError_take_profit, protected (holding ACME 100 10) 12 9) \<and>
   update_exit_prices on_tick (protected (holding ACME 100 10) 12 9)
       (Some 14) (Some 11) None (Some 10) =
     (Inl ValueError_stop_loss, protected (holding ACME 100 10) 14 9) \<and>
   fst (update on_tick (protected (holding ACME 100 10) 12 9)
          (carrying (fill ACME 50 13 2) (Some 12) None)) = Inl ValueError_take_profit \<and>
   amount (snd (update on_tick (protected (holding ACME 100 10) 12 9)
          (carrying (fill ACME 50 13 2) (Some 12) None))) = 100 \<and>
   stop_loss_price (snd (update on_tick (protected (holding ACME 100 10) 12 9)
          (carrying (fill ACME 50 13 2) (Some 12) None))) = 9"
  using raise_footprint [of "holding ACME 100 10" "fill OTHER 50 13 2" on_tick
      "holding ACME 100 10" OTHER 3 Exception_wrong_asset
      "holding ACME 100 10" OTHER 10 Exception_wrong_asset
      "protected (holding ACME 100 10) 12 9" "Some 9" "Some 11" None "Some 10"
      "protected (holding ACME 100 10) 12 9" "Some 14" "Some 11" None "Some 10"
      ValueError_stop_loss
      "protected (holding ACME 100 10) 12 9" "carrying (fill ACME 50 13 2) (Some 12) None"
      ValueError_take_profit]
  by (simp add: update_def handle_split_def adjust_commission_cost_basis_def
        update_exit_prices_def Let_def copysign_def on_tick_def
        holding_def fill_def carrying_def protected_def ACME_def OTHER_def)

text \<open>
  The claim as written fails twice on a long of 100 at 10.00 with take-profit 12.00 and
  stop-loss 9.00. A buy of 50 at 13.00 carrying take-profit 12.00 raises on the
  take-profit check, after \<open>cost_basis\<close>, \<open>last_sale_price\<close> and
  \<open>last_sale_date\<close> have been rewritten. Setting take-profit 14.00 and stop-loss
  11.00 against a last price of 10.00 raises on the stop-loss check, after
  \<open>take_profit_price\<close> has been replaced.
\<close>

theorem raise_footprint_counterexample:
  "update on_tick (protected (holding ACME 100 10) 12 9)
       (carrying (fill ACME 50 13 2) (Some 12) None) =
     (Inl ValueError_take_profit,
      \<lparr>asset = ACME, amount = 100, cost_basis = 11, last_sale_price = 13,
       last_sale_date = Some 2, take_profit_price = 12, stop_loss_price = 9\<rparr>) \<and>
   protected (holding ACME 100 10) 12 9 =
      \<lparr>asset = ACME, amount = 100, cost_basis = 10, last_sale_price = 10,
       last_sale_date = Some 1, take_profit_price = 12, stop_loss_price = 9\<rparr> \<and>
   update_exit_prices on_tick (protected (holding ACME 100 10) 12 9)
       (Some 14) (Some 11) None (Some 10) =
     (Inl ValueError_stop_loss,
      \<lparr>asset = ACME, amount = 100, cost_basis = 10, last_sale_price = 10,
       last_sale_date = Some 1, take_profit_price = 14, stop_loss_price = 9\<rparr>)"
  by (simp add: update_def update_exit_prices_def Let_def copysign_def on_tick_def
        holding_def fill_def carrying_def protected_def)

section \<open>Exit-price validation\<close>

text \<open>
  C4, as the code has it. For a long position (the amount passed to the call, or the
  position's own when none is passed, is positive) validated against a last sale price
  of 100 passed to the call: a take-profit of 95 raises exactly when the position
  already has a non-zero take-profit, a stop-loss of 105 raises exactly when it already
  has a non-zero stop-loss, and a take-profit of 110, a stop-loss of 90, or both
  together, are accepted. When no last sale price is passed, nothing is rejected.
\<close>

theorem exit_price_rejection:
  assumes "(case amount_arg of None \<Rightarrow> amount p | Some a \<Rightarrow> a) > 0"
  shows "fst (update_exit_prices arp p (Some 95) None amount_arg (Some 100)) =
           (if take_profit_price p \<noteq> 0 then Inl ValueError_take_profit else Inr ()) \<and>
         fst (update_exit_prices arp p None (Some 105) amount_arg (Some 100)) =
           (if stop_loss_price p \<noteq> 0 then Inl ValueError_stop_loss else Inr ()) \<and>
         fst (update_exit_prices arp p (Some 110) None amount_arg (Some 100)) = Inr () \<and>
         fst (update_exit_prices arp p None (Some 90) amount_arg (Some 100)) = Inr () \<and>
         fst (update_exit_prices arp p (Some 110) (Some 90) amount_arg (Some 100)) = Inr () \<and>
         fst (update_exit_prices arp p tp sl amount_arg None) = Inr ()"
proof -
  from assms have d: "copysign 1 (case amount_arg of None \<Rightarrow> amount p | Some a \<Rightarrow> a) = 1"
    by (simp add: copysign_def)
  show ?thesis
    unfolding update_exit_prices_def Let_def d
    by (simp split: option.splits)
qed

theorem exit_price_rejection_witness:
  "amount (protected (holding ACME 10 100) 120 80) > 0 \<and>
   fst (update_exit_prices on_tick (protected (holding ACME 10 100) 120 80)
          (Some 95) None None (Some 100)) = Inl ValueError_take_profit \<and>
   fst (update_exit_prices on_tick (protected (holding ACME 10 100) 120 80)
          None (Some 105) None (Some 100)) = Inl ValueError_stop_loss \<and>
   update_exit_prices on_tick (protected (holding ACME 10 100) 120 80)
          (Some 110) (Some 90) None (Some 100) =
     (Inr (), protected (holding ACME 10 100) 110 90)"
  using exit_price_rejection [where amount_arg = None and p = "protected (holding ACME 10 100) 120 80"
      and arp = on_tick and tp = None and sl = None]
  by (simp add: update_exit_prices_def Let_def copysign_def on_tick_def
        holding_def protected_def)

text \<open>
  The claim as written fails on a long position that has no exit prices yet: long 10,
  last sale price 100. A take-profit of 95 and a stop-loss of 105 are both accepted and
  stored, whether the last sale price is passed to the call or not.
\<close>

theorem exit_price_rejection_counterexample:
  "amount (holding ACME 10 100) > 0 \<and> last_sale_price (holding ACME 10 100) = 100 \<and>
   update_exit_prices on_tick (holding ACME 10 100) (Some 95) None None (Some 100) =
     (Inr (), protected (holding ACME 10 100) 95 0) \<and>
   update_exit_prices on_tick (holding ACME 10 100) None (Some 105) None (Some 100) =
     (Inr (), protected (holding ACME 10 100) 0 105) \<and>
   update_exit_prices on_tick (holding ACME 10 100) (Some 95) None None None =
     (Inr (), protected (holding ACME 10 100) 95 0) \<and>
   update_exit_prices on_tick (holding ACME 10 100) None (Some 105) None None =
     (Inr (), protected (holding ACME 10 100) 0 105)"
  by (simp add: update_exit_prices_def Let_def copysign_def on_tick_def
        holding_def protected_def)

section \<open>Splits\<close>


text \<open>
  C6. For the position's own asset and a non-zero ratio, \<open>handle_split\<close> returns
  \<open>round((amount/ratio - floor(amount/ratio)) * new_cost_basis, 2)\<close> and leaves
  \<open>amount\<close> at \<open>floor(amount/ratio)\<close>, \<open>cost_basis\<close> at
  \<open>new_cost_basis = round(cost_basis * ratio, 2)\<close>, each non-zero exit price
  multiplied by the ratio and rounded to two decimals, and every other field as it
  was. Quotient, difference, products and \<open>round\<close> are the float operations of
  the code. (A zero ratio raises \<open>ZeroDivisionError\<close> before anything is written.)
\<close>

theorem handle_split_result:
  assumes "asset p = a" and "ratio \<noteq> 0"
  shows "handle_split p a ratio =
           (Inr (round2 (fl (fl (fl (amount p / ratio) - of_int \<lfloor>fl (amount p / ratio)\<rfloor>)
                               * round2 (fl (cost_basis p * ratio))))),
            p\<lparr>amount := of_int \<lfloor>fl (amount p / ratio)\<rfloor>,
              cost_basis := round2 (fl (cost_basis p * ratio)),
              take_profit_price :=
                (if take_profit_price p \<noteq> 0 then round2 (fl (take_profit_price p * ratio))
                 else take_profit_price p),
              stop_loss_price :=
                (if stop_loss_price p \<noteq> 0 then round2 (fl (stop_loss_price p * ratio))
                 else stop_loss_price p)\<rparr>)"
  using assms by (simp add: handle_split_def Let_def)

text \<open>
  The spec's example, 100 shares at a cost basis of 30.00 and ratio 3, here with a
  take-profit of 36.00: 33 shares at 90.00, cash 30.00, take-profit 108.00. Then two
  odd lots split 2 for 1, where the cash is a product of doubles just off a half cent:
  101 shares at 10.0033 give 50 shares at 20.01 and cash 10.01; 7 shares at 3.255 give
  3 shares at 6.51 and cash 3.25.
\<close>

theorem handle_split_result_witness:
  "asset (protected (holding ACME 100 30) 36 0) = ACME \<and> (3 :: rat) \<noteq> 0 \<and>
   handle_split (protected (holding ACME 100 30) 36 0) ACME 3 =
     (Inr 30, \<lparr>asset = ACME, amount = 33, cost_basis = 90, last_sale_price = 30,
               last_sale_date = Some 1, take_profit_price = 108, stop_loss_price = 0\<rparr>) \<and>
   asset (holding ACME 101 (fl (100033 / 10000))) = ACME \<and> (2 :: rat) \<noteq> 0 \<and>
   handle_split (holding ACME 101 (fl (100033 / 10000))) ACME 2 =
     (Inr (fl (1001 / 100)),
      \<lparr>asset = ACME, amount = 50, cost_basis = fl (2001 / 100),
       last_sale_price = fl (100033 / 10000), last_sale_date = Some 1,
       take_profit_price = 0, stop_loss_price = 0\<rparr>) \<and>
   handle_split (holding ACME 7 (fl (3255 / 1000))) ACME 2 =
     (Inr (fl (325 / 100)),
      \<lparr>asset = ACME, amount = 3, cost_basis = fl (651 / 100),
       last_sale_price = fl (3255 / 1000), last_sale_date = Some 1,
       take_profit_price = 0, stop_loss_price = 0\<rparr>)"
proof -
  have a1: "asset (protected (holding ACME 100 30) 36 0) = ACME"
    by (simp add: holding_def protected_def)
  have a2: "asset (holding ACME 101 (fl (100033 / 10000))) = ACME"
    by (simp add: holding_def)
  have a3: "asset (holding ACME 7 (fl (3255 / 1000))) = ACME"
    by (simp add: holding_def)
  have r3: "(3 :: rat) \<noteq> 0" and r2: "(2 :: rat) \<noteq> 0"
    by simp_all
  have e1: "handle_split (protected (holding ACME 100 30) 36 0) ACME 3 =
     (Inr 30, \<lparr>asset = ACME, amount = 33, cost_basis = 90, last_sale_price = 30,
               last_sale_date = Some 1, take_profit_price = 108, stop_loss_price = 0\<rparr>)"
    unfolding handle_split_result [OF a1 r3] by code_simp
  have e2: "handle_split (holding ACME 101 (fl (100033 / 10000))) ACME 2 =
     (Inr (fl (1001 / 100)),
      \<lparr>asset = ACME, amount = 50, cost_basis = fl (2001 / 100),
       last_sale_price = fl (100033 / 10000), last_sale_date = Some 1,
       take_profit_price = 0, stop_loss_price = 0\<rparr>)"
    unfolding handle_split_result [OF a2 r2] by code_simp
  have e3: "handle_split (holding ACME 7 (fl (3255 / 1000))) ACME 2 =
     (Inr (fl (325 / 100)),
      \<lparr>asset = ACME, amount = 3, cost_basis = fl (651 / 100),
       last_sale_price = fl (3255 / 1000), last_sale_date = Some 1,
       take_profit_price = 0, stop_loss_price = 0\<rparr>)"
    unfolding handle_split_result [OF a3 r2] by code_simp
  from handle_split_result [OF a2 r2] a1 a2 r2 r3 e1 e2 e3 show ?thesis by blast
qed

section \<open>Commission\<close>

text \<open>
  C7. For the position's own asset, \<open>adjust_commission_cost_basis\<close> returns with
  the position untouched when the cost or the amount is zero. Otherwise it leaves
  \<open>cost_basis\<close> at \<open>(cost_basis * amount + cost_to_use) / amount\<close>, where
  \<open>cost_to_use\<close> is \<open>cost / price_multiplier\<close> for a future (with a non-zero
  multiplier) and \<open>cost\<close> for any other asset, and every other field as it was.
\<close>

theorem adjust_commission_cost_basis_result:
  assumes "asset p = a"
  shows "(cost = 0 \<or> amount p = 0 \<longrightarrow>
            adjust_commission_cost_basis p a cost = (Inr (), p)) \<and>
         (cost \<noteq> 0 \<and> amount p \<noteq> 0 \<and> (is_Future a \<longrightarrow> price_multiplier a \<noteq> 0) \<longrightarrow>
            adjust_commission_cost_basis p a cost =
              (Inr (), p\<lparr>cost_basis :=
                           (cost_basis p * amount p +
                              (if is_Future a then cost / price_multiplier a else cost))
                             / amount p\<rparr>))"
  using assms by (auto simp add: adjust_commission_cost_basis_def Let_def)

text \<open>
  The spec's examples: long 50 at 20.00 and a commission of 10.00 give 20.20 for an
  equity and 20.04 for a future with multiplier 5; a flat position is left alone.
\<close>

theorem adjust_commission_cost_basis_result_witness:
  "adjust_commission_cost_basis (holding ACME 50 20) ACME 10 =
     (Inr (), (holding ACME 50 20)\<lparr>cost_basis := 101 / 5\<rparr>) \<and>
   adjust_commission_cost_basis (holding FUT 50 20) FUT 10 =
     (Inr (), (holding FUT 50 20)\<lparr>cost_basis := 501 / 25\<rparr>) \<and>
   adjust_commission_cost_basis (Position ACME) ACME 10 = (Inr (), Position ACME) \<and>
   adjust_commission_cost_basis (holding ACME 50 20) ACME 0 = (Inr (), holding ACME 50 20)"
  using adjust_commission_cost_basis_result [of "holding ACME 50 20" ACME 10]
    adjust_commission_cost_basis_result [of "holding FUT 50 20" FUT 10]
    adjust_commission_cost_basis_result [of "Position ACME" ACME 10]
    adjust_commission_cost_basis_result [of "holding ACME 50 20" ACME 0]
  by (simp add: holding_def Position_def FUT_def ACME_def)

section \<open>Operations given another asset\<close>




section \<open>Rounding twice\<close>










section \<open>Exit prices of a flat position\<close>

lemma uep_outcome:
  "fst (update_exit_prices arp p tp sl amount_arg lsp) =
     (let d = copysign 1 (case amount_arg of None \<Rightarrow> amount p | Some a \<Rightarrow> a)
      in if (case tp of None \<Rightarrow> False
             | Some t \<Rightarrow> take_profit_price p \<noteq> 0 \<and>
                 (case lsp of None \<Rightarrow> False | Some l \<Rightarrow> d * t < d * l))
         then Inl ValueError_take_profit
         else if (case sl of None \<Rightarrow> False
                  | Some l' \<Rightarrow> stop_loss_price p \<noteq> 0 \<and>
                      (case lsp of None \<Rightarrow> False | Some l \<Rightarrow> d * l' > d * l))
         then Inl ValueError_stop_loss
         else Inr ())"
  by (simp add: update_exit_prices_def Let_def split: option.splits)

lemma uep_stored:
  assumes "fst (update_exit_prices arp p tp sl amount_arg lsp) = Inr ()"
  shows "take_profit_price (snd (update_exit_prices arp p tp sl amount_arg lsp)) =
           (case tp of None \<Rightarrow> take_profit_price p
            | Some t \<Rightarrow> arp t (\<not> (case amount_arg of None \<Rightarrow> amount p | Some a \<Rightarrow> a) > 0)
                          (tick_size (asset p)))"
    and "stop_loss_price (snd (update_exit_prices arp p tp sl amount_arg lsp)) =
           (case sl of None \<Rightarrow> stop_loss_price p
            | Some l \<Rightarrow> arp l ((case amount_arg of None \<Rightarrow> amount p | Some a \<Rightarrow> a) > 0)
                          (tick_size (asset p)))"
  using assms
  by (auto simp add: update_exit_prices_def Let_def split: option.splits if_splits)

text \<open>
  C10. When the amount \<open>update_exit_prices\<close> works with (the one passed, or the
  position's own when none is passed) is exactly zero, the direction of the ordering
  checks is \<open>+1\<close>: the call raises or returns exactly as it would for any long
  amount. The exit prices it stores on returning are quantized with the flags of a
  short amount: \<open>True\<close> (\<open>not amount > 0\<close>) for the take-profit and \<open>False\<close>
  (\<open>amount > 0\<close>) for the stop-loss.
\<close>

theorem flat_exit_direction:
  assumes "(case amount_arg of None \<Rightarrow> amount p | Some a \<Rightarrow> a) = 0"
  shows "copysign 1 (case amount_arg of None \<Rightarrow> amount p | Some a \<Rightarrow> a) = 1 \<and>
         (0 < long \<longrightarrow>
            fst (update_exit_prices arp p tp sl amount_arg lsp) =
              fst (update_exit_prices arp p tp sl (Some long) lsp)) \<and>
         (fst (update_exit_prices arp p tp sl amount_arg lsp) = Inr () \<longrightarrow>
            take_profit_price (snd (update_exit_prices arp p tp sl amount_arg lsp)) =
              (case tp of None \<Rightarrow> take_profit_price p
               | Some t \<Rightarrow> arp t True (tick_size (asset p))) \<and>
            stop_loss_price (snd (update_exit_prices arp p tp sl amount_arg lsp)) =
              (case sl of None \<Rightarrow> stop_loss_price p
               | Some l \<Rightarrow> arp l False (tick_size (asset p)))) \<and>
         (short < 0 \<and> fst (update_exit_prices arp p tp sl (Some short) lsp) = Inr () \<longrightarrow>
            take_profit_price (snd (update_exit_prices arp p tp sl (Some short) lsp)) =
              (case tp of None \<Rightarrow> take_profit_price p
               | Some t \<Rightarrow> arp t True (tick_size (asset p))) \<and>
            stop_loss_price (snd (update_exit_prices arp p tp sl (Some short) lsp)) =
              (case sl of None \<Rightarrow> stop_loss_price p
               | Some l \<Rightarrow> arp l False (tick_size (asset p))))"
proof (intro conjI impI)
  show d: "copysign 1 (case amount_arg of None \<Rightarrow> amount p | Some a \<Rightarrow> a) = 1"
    using assms by (simp add: copysign_def)
  show "fst (update_exit_prices arp p tp sl amount_arg lsp) =
          fst (update_exit_prices arp p tp sl (Some long) lsp)" if "0 < long"
    using that d by (simp add: uep_outcome copysign_def)
next
  assume ok: "fst (update_exit_prices arp p tp sl amount_arg lsp) = Inr ()"
  from uep_stored(1) [OF ok] assms
  show "take_profit_price (snd (update_exit_prices arp p tp sl amount_arg lsp)) =
          (case tp of None \<Rightarrow> take_profit_price p
           | Some t \<Rightarrow> arp t True (tick_size (asset p)))"
    by (simp split: option.splits)
  from uep_stored(2) [OF ok] assms
  show "stop_loss_price (snd (update_exit_prices arp p tp sl amount_arg lsp)) =
          (case sl of None \<Rightarrow> stop_loss_price p
           | Some l \<Rightarrow> arp l False (tick_size (asset p)))"
    by (simp split: option.splits)
next
  assume h: "short < 0 \<and> fst (update_exit_prices arp p tp sl (Some short) lsp) = Inr ()"
  then have ok: "fst (update_exit_prices arp p tp sl (Some short) lsp) = Inr ()"
    and neg: "\<not> 0 < short"
    by simp_all
  from uep_stored(1) [OF ok] neg
  show "take_profit_price (snd (update_exit_prices arp p tp sl (Some short) lsp)) =
          (case tp of None \<Rightarrow> take_profit_price p
           | Some t \<Rightarrow> arp t True (tick_size (asset p)))"
    by (simp split: option.splits)
  from uep_stored(2) [OF ok] neg
  show "stop_loss_price (snd (update_exit_prices arp p tp sl (Some short) lsp)) =
          (case sl of None \<Rightarrow> stop_loss_price p
           | Some l \<Rightarrow> arp l False (tick_size (asset p)))"
    by (simp split: option.splits)
qed

text \<open>
  A fresh (flat) position with a tick of 0.01, given a take-profit of 12.00 and a
  stop-loss of 9.00 against a last price of 10.00, and the same call for a long of 5
  and a short of 5. The probe quantizer steps one tick down when its flag is
  \<open>True\<close> and one tick up when it is \<open>False\<close>. With a take-profit of 11.00
  already set, a flat position rejects a new take-profit of 10.50 against a last price
  of 10.75, as a long does and a short does not.
\<close>

theorem flat_exit_direction_witness:
  "amount (Position ACME) = 0 \<and> (0 :: rat) < 5 \<and> (-5 :: rat) < 0 \<and>
   update_exit_prices flag_probe (Position ACME) (Some 12) (Some 9) None (Some 10) =
     (Inr (), protected (Position ACME) (1199 / 100) (901 / 100)) \<and>
   update_exit_prices flag_probe (Position ACME) (Some 12) (Some 9) (Some (-5)) (Some 10) =
     (Inr (), protected (Position ACME) (1199 / 100) (901 / 100)) \<and>
   update_exit_prices flag_probe (Position ACME) (Some 12) (Some 9) (Some 5) (Some 10) =
     (Inr (), protected (Position ACME) (1201 / 100) (899 / 100)) \<and>
   fst (update_exit_prices flag_probe (protected (Position ACME) 11 0)
          (Some (21 / 2)) None None (Some (43 / 4))) = Inl ValueError_take_profit \<and>
   fst (update_exit_prices flag_probe (protected (Position ACME) 11 0)
          (Some (21 / 2)) None (Some 5) (Some (43 / 4))) = Inl ValueError_take_profit \<and>
   fst (update_exit_prices flag_probe (protected (Position ACME) 11 0)
          (Some (21 / 2)) None (Some (-5)) (Some (43 / 4))) = Inr ()"
  using flat_exit_direction [where amount_arg = None and p = "Position ACME"
      and arp = flag_probe and tp = "Some 12" and sl = "Some 9" and lsp = "Some 10"
      and long = 5 and short = "-5"]
  by (simp add: update_exit_prices_def Let_def copysign_def flag_probe_def
        Position_def protected_def ACME_def)

end
